theory Spec2Isabelle
  imports Main "HOL-Library.Word"
begin

unbundle bit_operations_syntax

section \<open>The icon stub generator \<open>fix_icons.py\<close>\<close>

text \<open>
  The script decodes one embedded base64 literal and writes the resulting bytes to four
  files under the directory \<open>icons\<close>:
  \<^verbatim>\<open>
  data = "iVBORw0KGgo..."
  icon_bytes = base64.b64decode(data)

  os.makedirs("icons", exist_ok=True)
  for name in ["32x32.png", "128x128.png", "128x128@2x.png", "icon.png"]:
      with open(os.path.join("icons", name), "wb") as f:
          f.write(icon_bytes)

  print("Minimalist icons generated")
  \<close>
  The model below has three layers: the library calls the script makes
  (\<open>base64.b64decode\<close>, \<open>os.path.join\<close>, \<open>os.makedirs\<close>, \<open>open\<close>/\<open>write\<close>), the
  script itself as a function from the process context to an outcome, and the theorems.
\<close>

subsection \<open>Bytes and errors\<close>

type_synonym byte = "8 word"

text \<open>
  Every exception the library calls of the script can raise in the model. The string
  argument of the filesystem errors is the path the call was given.
\<close>

datatype error =
    ValueError
  | BinasciiError
  | FileExistsError string
  | FileNotFoundError string
  | NotADirectoryError string
  | IsADirectoryError string

subsection \<open>\<open>base64.b64decode\<close>\<close>

text \<open>
  \<open>base64.b64decode(s)\<close> with the default \<open>validate=False\<close> encodes a \<open>str\<close> argument
  as ASCII (a \<open>ValueError\<close> when a character is outside ASCII) and passes it to
  \<open>binascii.a2b_base64\<close> in its non-strict mode. That function is a loop over the input
  with the state \<open>quad_pos\<close>, \<open>leftchar\<close>, \<open>pads\<close> and the output written so far:
  \<^verbatim>\<open>
  for (; i < ascii_len; i++) {
      this_ch = ascii_data[i];
      if (this_ch == BASE64_PAD) {
          if (quad_pos >= 2 && quad_pos + ++pads >= 4) goto done;
          continue;
      }
      this_ch = table_a2b_base64[this_ch];
      if (this_ch >= 64) continue;
      pads = 0;
      switch (quad_pos) {
      case 0: quad_pos = 1; leftchar = this_ch; break;
      case 1: quad_pos = 2; *bin_data++ = (leftchar << 2) | (this_ch >> 4);
              leftchar = this_ch & 0x0f; break;
      case 2: quad_pos = 3; *bin_data++ = (leftchar << 4) | (this_ch >> 2);
              leftchar = this_ch & 0x03; break;
      case 3: quad_pos = 0; *bin_data++ = (leftchar << 6) | (this_ch);
              leftchar = 0; break;
      }
  }
  if (quad_pos != 0) raise binascii.Error
  done: return the output
  \<close>
\<close>

definition b64_alphabet :: string where
  "b64_alphabet = ''ABCDEFGHIJKLMNOPQRSTUVWXYZabcdefghijklmnopqrstuvwxyz0123456789+/''"

fun index_of :: "char \<Rightarrow> string \<Rightarrow> nat \<Rightarrow> nat option" where
  "index_of c [] i = None"
| "index_of c (x # xs) i = (if x = c then Some i else index_of c xs (Suc i))"

text \<open>
  The table \<open>table_a2b_base64\<close>: the 6-bit value of a character of the alphabet, and
  \<open>None\<close> for the entries the C table marks with \<open>-1\<close>. The pad character never
  reaches the table, the loop handles it first.
\<close>

definition table_a2b_base64 :: "char \<Rightarrow> byte option" where
  "table_a2b_base64 c = map_option of_nat (index_of c b64_alphabet 0)"

definition BASE64_PAD :: char where
  "BASE64_PAD = CHR ''=''"

fun a2b_base64_loop :: "string \<Rightarrow> nat \<Rightarrow> byte \<Rightarrow> nat \<Rightarrow> byte list \<Rightarrow> error + byte list" where
  "a2b_base64_loop [] quad_pos leftchar pads out =
     (if quad_pos \<noteq> 0 then Inl BinasciiError else Inr out)"
| "a2b_base64_loop (c # cs) quad_pos leftchar pads out =
     (if c = BASE64_PAD then
        (if quad_pos \<ge> 2 then
           (if quad_pos + (pads + 1) \<ge> 4 then Inr out
            else a2b_base64_loop cs quad_pos leftchar (pads + 1) out)
         else a2b_base64_loop cs quad_pos leftchar pads out)
      else
        (case table_a2b_base64 c of
           None \<Rightarrow> a2b_base64_loop cs quad_pos leftchar pads out
         | Some this_ch \<Rightarrow>
             (if quad_pos = 0 then
                a2b_base64_loop cs 1 this_ch 0 out
              else if quad_pos = 1 then
                a2b_base64_loop cs 2 (this_ch AND 0x0f) 0
                  (out @ [push_bit 2 leftchar OR drop_bit 4 this_ch])
              else if quad_pos = 2 then
                a2b_base64_loop cs 3 (this_ch AND 0x03) 0
                  (out @ [push_bit 4 leftchar OR drop_bit 2 this_ch])
              else
                a2b_base64_loop cs 0 0 0
                  (out @ [push_bit 6 leftchar OR this_ch]))))"

definition a2b_base64 :: "string \<Rightarrow> error + byte list" where
  "a2b_base64 s = a2b_base64_loop s 0 0 0 []"

definition b64decode :: "string \<Rightarrow> error + byte list" where
  "b64decode s =
     (if \<exists>c \<in> set s. of_char c \<ge> (128 :: nat) then Inl ValueError else a2b_base64 s)"

subsection \<open>The constants of the script\<close>

definition data :: string where
  "data = ''iVBORw0KGgoAAAANSUhEUgAAAAEAAAABCAYAAAAfFcSJAAAADUlEQVR42mP8z8BQDwAEhQGAhKmMIQAAAABJRU5ErkJggg==''"

text \<open>The list the loop of the script iterates over, in its order.\<close>

definition icon_names :: "string list" where
  "icon_names = [''32x32.png'', ''128x128.png'', ''128x128@2x.png'', ''icon.png'']"

subsection \<open>\<open>os.path.join\<close> and the directory of a path\<close>

definition sep :: char where
  "sep = CHR ''/''"

text \<open>
  \<open>posixpath.join(a, b)\<close> for one component \<open>b\<close>:
  \<^verbatim>\<open>
  if b.startswith(sep): path = b
  elif not path or path.endswith(sep): path += b
  else: path += sep + b
  \<close>
\<close>

definition path_join :: "string \<Rightarrow> string \<Rightarrow> string" where
  "path_join a b =
     (if (case b of [] \<Rightarrow> False | c # _ \<Rightarrow> c = sep) then b
      else if a = [] \<or> last a = sep then a @ b
      else a @ [sep] @ b)"

text \<open>
  \<open>posixpath.dirname\<close>: the path up to its last separator, without trailing separators
  unless it consists of separators only. The filesystem model uses it to find the
  directory an entry is created in; the empty result stands for the working directory.
\<close>

definition dirname :: "string \<Rightarrow> string" where
  "dirname p =
     (let head = rev (dropWhile (\<lambda>c. c \<noteq> sep) (rev p))
      in if head \<noteq> [] \<and> \<not> (\<forall>c \<in> set head. c = sep)
         then rev (dropWhile (\<lambda>c. c = sep) (rev head))
         else head)"

subsection \<open>The filesystem\<close>

text \<open>
  The working directory as a map from relative path names, written as the script writes
  them, to what is there: a regular file with its content, or a directory. The working
  directory itself is not an entry: it exists and is a directory.

  A call fails in this model when what is at its path, or at the directory part of its
  path, does not allow it: a regular file where a directory is needed, a directory where
  a file is to be opened, a missing directory. Failures that depend on more than that
  (permissions, a full disk, a closed standard output) are outside the model, as are
  other processes working in the directory. In this filesystem every name is a file of
  its own; files with more than one name are the subject of a later subsection.
\<close>

datatype node = File "byte list" | Dir

type_synonym filesystem = "string \<rightharpoonup> node"

text \<open>
  Resolving the directory part of a path, as every call that creates an entry does
  first: \<open>ENOENT\<close> when it is missing, \<open>ENOTDIR\<close> when it is a regular file.
\<close>

definition parent_error :: "filesystem \<Rightarrow> string \<Rightarrow> error option" where
  "parent_error fs p =
     (let d = dirname p
      in if d = [] then None
         else (case fs d of
                 None \<Rightarrow> Some (FileNotFoundError p)
               | Some (File _) \<Rightarrow> Some (NotADirectoryError p)
               | Some Dir \<Rightarrow> None))"

text \<open>\<open>os.path.isdir\<close> and \<open>os.mkdir\<close>.\<close>

definition isdir :: "filesystem \<Rightarrow> string \<Rightarrow> bool" where
  "isdir fs p = (fs p = Some Dir)"

definition mkdir :: "string \<Rightarrow> filesystem \<Rightarrow> error + filesystem" where
  "mkdir p fs =
     (case parent_error fs p of
        Some e \<Rightarrow> Inl e
      | None \<Rightarrow>
          (case fs p of
             Some _ \<Rightarrow> Inl (FileExistsError p)
           | None \<Rightarrow> Inr (fs(p \<mapsto> Dir))))"

text \<open>
  \<open>os.makedirs(name, exist_ok=True)\<close>. For a name of one component
  \<open>posixpath.split\<close> gives an empty head, so the branch that first creates the missing
  parents is skipped and what runs is
  \<^verbatim>\<open>
  try:
      mkdir(name, mode)
  except OSError:
      if not exist_ok or not path.isdir(name):
          raise
  \<close>
  Every filesystem error of the model is an \<open>OSError\<close>.
\<close>

definition makedirs :: "string \<Rightarrow> filesystem \<Rightarrow> error + filesystem" where
  "makedirs name fs =
     (case mkdir name fs of
        Inr fs' \<Rightarrow> Inr fs'
      | Inl e \<Rightarrow> if isdir fs name then Inr fs else Inl e)"

text \<open>
  \<open>open(p, "wb")\<close> creates the file or truncates it to length zero; it fails when the
  directory part of \<open>p\<close> does not resolve or when \<open>p\<close> is a directory. Here the file
  at \<open>p\<close> has no other name; \<open>open_wb_linked\<close> below is the call where it may have.
\<close>

definition open_wb :: "string \<Rightarrow> filesystem \<Rightarrow> error + filesystem" where
  "open_wb p fs =
     (case parent_error fs p of
        Some e \<Rightarrow> Inl e
      | None \<Rightarrow>
          (case fs p of
             Some Dir \<Rightarrow> Inl (IsADirectoryError p)
           | _ \<Rightarrow> Inr (fs(p \<mapsto> File []))))"

text \<open>
  \<open>f.write(b)\<close> on the file opened at \<open>p\<close>: the bytes go to the file position, which
  is the end of the file for a handle that has only been written to since it was opened.
  Again the file has no other name; \<open>file_write_linked\<close> below is the general call.
\<close>

definition file_write :: "string \<Rightarrow> byte list \<Rightarrow> filesystem \<Rightarrow> filesystem" where
  "file_write p b fs =
     (case fs p of
        Some (File c) \<Rightarrow> fs(p \<mapsto> File (c @ b))
      | _ \<Rightarrow> fs)"

subsection \<open>The script\<close>

text \<open>
  The body of the loop, \<open>with open(os.path.join("icons", name), "wb") as f:
  f.write(icon_bytes)\<close>: open, write, close.
\<close>

definition write_icon :: "string \<Rightarrow> byte list \<Rightarrow> filesystem \<Rightarrow> error + filesystem" where
  "write_icon name icon_bytes fs =
     (let p = path_join ''icons'' name
      in case open_wb p fs of
           Inl e \<Rightarrow> Inl e
         | Inr fs1 \<Rightarrow> Inr (file_write p icon_bytes fs1))"

text \<open>
  The loop \<open>for name in [...]\<close>. An exception leaves the loop at once; the filesystem
  it leaves behind is the one the earlier iterations produced.
\<close>

fun write_icons :: "string list \<Rightarrow> byte list \<Rightarrow> filesystem \<Rightarrow> error option \<times> filesystem" where
  "write_icons [] icon_bytes fs = (None, fs)"
| "write_icons (name # names) icon_bytes fs =
     (case write_icon name icon_bytes fs of
        Inl e \<Rightarrow> (Some e, fs)
      | Inr fs1 \<Rightarrow> write_icons names icon_bytes fs1)"

text \<open>
  What a run leaves behind: the uncaught exception if there is one, the lines printed to
  standard output, and the filesystem.
\<close>

record outcome =
  raised :: "error option"
  stdout :: "string list"
  files :: filesystem

text \<open>
  The interpreter exits with status 0 when the module body runs to its end and with
  status 1 when an exception is not caught.
\<close>

definition exit_status :: "outcome \<Rightarrow> nat" where
  "exit_status r = (case raised r of None \<Rightarrow> 0 | Some _ \<Rightarrow> 1)"

text \<open>
  The module body, top to bottom, with the literal \<open>data\<close> as a parameter so that the
  failure of the decoding step is a branch like the others.
\<close>

definition run_script :: "string \<Rightarrow> filesystem \<Rightarrow> outcome" where
  "run_script d fs =
     (case b64decode d of
        Inl e \<Rightarrow> \<lparr>raised = Some e, stdout = [], files = fs\<rparr>
      | Inr icon_bytes \<Rightarrow>
          (case makedirs ''icons'' fs of
             Inl e \<Rightarrow> \<lparr>raised = Some e, stdout = [], files = fs\<rparr>
           | Inr fs1 \<Rightarrow>
               (case write_icons icon_names icon_bytes fs1 of
                  (Some e, fs2) \<Rightarrow> \<lparr>raised = Some e, stdout = [], files = fs2\<rparr>
                | (None, fs2) \<Rightarrow>
                    \<lparr>raised = None, stdout = [''Minimalist icons generated''], files = fs2\<rparr>)))"

text \<open>
  The process: it is started with an argument vector and an environment in a working
  directory. The script imports neither \<open>sys\<close> nor reads \<open>os.environ\<close>.
\<close>

definition fix_icons :: "string list \<Rightarrow> (string \<rightharpoonup> string) \<Rightarrow> filesystem \<Rightarrow> outcome" where
  "fix_icons argv environ fs = run_script data fs"

subsection \<open>Files with more than one name\<close>













section \<open>What a one-pixel PNG image is\<close>

text \<open>
  The comment in the script calls the literal a "minimal 1x1 red dot PNG". To say what that
  means for a byte sequence, this section follows the PNG specification: the signature, a
  sequence of chunks (length, type, data, CRC-32), the header fields of \<open>IHDR\<close>, and the
  zlib stream of \<open>IDAT\<close> (RFC 1950, RFC 1951) with its Adler-32 checksum.
\<close>

definition png_signature :: "byte list" where
  "png_signature = [137, 80, 78, 71, 13, 10, 26, 10]"

text \<open>Four bytes, most significant first.\<close>

definition be32 :: "byte list \<Rightarrow> 32 word" where
  "be32 bs = foldl (\<lambda>v b. push_bit 8 v OR ucast b) 0 bs"

text \<open>
  The CRC of the PNG specification, bit by bit: polynomial \<open>0xEDB88320\<close>, start value
  and final complement \<open>0xFFFFFFFF\<close>.
\<close>

fun crc_bits :: "nat \<Rightarrow> 32 word \<Rightarrow> 32 word" where
  "crc_bits 0 c = c"
| "crc_bits (Suc k) c =
     crc_bits k (if bit c 0 then 0xEDB88320 XOR drop_bit 1 c else drop_bit 1 c)"

fun update_crc :: "32 word \<Rightarrow> byte list \<Rightarrow> 32 word" where
  "update_crc c [] = c"
| "update_crc c (b # bs) = update_crc (crc_bits 8 (c XOR ucast b)) bs"

definition crc32 :: "byte list \<Rightarrow> 32 word" where
  "crc32 bs = update_crc 0xFFFFFFFF bs XOR 0xFFFFFFFF"

record chunk =
  chunk_type :: "byte list"
  chunk_data :: "byte list"
  chunk_crc :: "32 word"

text \<open>
  Splitting a byte sequence into chunks: four bytes of length \<open>n\<close>, four of type,
  \<open>n\<close> of data, four of CRC; \<open>None\<close> when the bytes do not divide that way.
\<close>

function chunks :: "byte list \<Rightarrow> chunk list option" where
  "chunks bs =
     (if bs = [] then Some []
      else if length bs < 12 then None
      else
        (let n = unat (be32 (take 4 bs))
         in if length bs < 12 + n then None
            else
              (case chunks (drop (12 + n) bs) of
                 None \<Rightarrow> None
               | Some cs \<Rightarrow>
                   Some (\<lparr>chunk_type = take 4 (drop 4 bs),
                          chunk_data = take n (drop 8 bs),
                          chunk_crc = be32 (take 4 (drop (8 + n) bs))\<rparr> # cs))))"
  by pat_completeness auto
termination
  by (relation "measure length") auto

text \<open>The CRC of a chunk covers its type and its data.\<close>

definition crc_ok :: "chunk \<Rightarrow> bool" where
  "crc_ok c = (crc32 (chunk_type c @ chunk_data c) = chunk_crc c)"

definition adler32 :: "byte list \<Rightarrow> int" where
  "adler32 bs =
     (let (a, b) = foldl (\<lambda>(a, b) x. ((a + uint x) mod 65521, (b + (a + uint x) mod 65521) mod 65521))
                     (1, 0) bs
      in b * 65536 + a)"

text \<open>
  Deflate reads a byte from its least significant bit; a Huffman code is read with its
  most significant bit first.
\<close>

definition bits_of :: "byte list \<Rightarrow> bool list" where
  "bits_of bs = concat (map (\<lambda>b. map (bit b) [0..<8]) bs)"

definition code_value :: "bool list \<Rightarrow> nat" where
  "code_value bits = foldl (\<lambda>v b. 2 * v + (if b then 1 else 0)) 0 bits"

text \<open>
  One symbol of the fixed Huffman code of RFC 1951, section 3.2.6, and the bits after it:
  seven-bit codes 0 to 23 are the symbols 256 to 279, eight-bit codes 48 to 191 the
  literals 0 to 143, eight-bit codes 192 to 199 the symbols 280 to 287, nine-bit codes
  400 to 511 the literals 144 to 255.
\<close>

definition fixed_symbol :: "bool list \<Rightarrow> (nat \<times> bool list) option" where
  "fixed_symbol bits =
     (if length bits < 7 then None
      else if code_value (take 7 bits) \<le> 23 then
        Some (256 + code_value (take 7 bits), drop 7 bits)
      else if length bits < 8 then None
      else if code_value (take 8 bits) \<le> 191 then
        Some (code_value (take 8 bits) - 48, drop 8 bits)
      else if code_value (take 8 bits) \<le> 199 then
        Some (280 + (code_value (take 8 bits) - 192), drop 8 bits)
      else if length bits < 9 then None
      else Some (144 + (code_value (take 9 bits) - 400), drop 9 bits))"

text \<open>
  The symbols of a block up to its end-of-block symbol 256. This reader accepts literals
  only: a block with a length symbol (a back reference) is answered with \<open>None\<close>, so
  what it accepts is a deflate block, and not every deflate block is accepted.
\<close>

function literals :: "bool list \<Rightarrow> byte list \<Rightarrow> (byte list \<times> bool list) option" where
  "literals bits out =
     (case fixed_symbol bits of
        None \<Rightarrow> None
      | Some (symbol, rest) \<Rightarrow>
          if symbol = 256 then Some (out, rest)
          else if symbol < 256 \<and> length rest < length bits
          then literals rest (out @ [of_nat symbol])
          else None)"
  by pat_completeness auto
termination
  by (relation "measure (\<lambda>(bits, out). length bits)") auto

text \<open>
  A deflate stream of one final block with the fixed code (header bits \<open>BFINAL = 1\<close>,
  \<open>BTYPE = 01\<close>): the bytes it decodes to and the whole bytes that follow the block.
\<close>

definition inflate :: "byte list \<Rightarrow> (byte list \<times> byte list) option" where
  "inflate bs =
     (case bits_of bs of
        True # True # False # bits \<Rightarrow>
          (case literals bits [] of
             None \<Rightarrow> None
           | Some (out, rest) \<Rightarrow> Some (out, drop (length bs - length rest div 8) bs))
      | _ \<Rightarrow> None)"

text \<open>
  A zlib stream: the two header bytes (method 8, window at most 32K, check bits, no preset
  dictionary), the deflate stream, and the Adler-32 of the decompressed bytes.
\<close>

definition zlib_decompress :: "byte list \<Rightarrow> byte list option" where
  "zlib_decompress bs =
     (case bs of
        cmf # flg # deflated \<Rightarrow>
          if cmf AND 0x0F = 8 \<and> drop_bit 4 cmf \<le> 7 \<and> (256 * uint cmf + uint flg) mod 31 = 0
             \<and> \<not> bit flg 5
          then
            (case inflate deflated of
               None \<Rightarrow> None
             | Some (out, trailer) \<Rightarrow>
                 if length trailer = 4 \<and> uint (be32 trailer) = adler32 out then Some out else None)
          else None
      | _ \<Rightarrow> None)"

text \<open>Samples per pixel of the colour types without a palette.\<close>

definition samples_per_pixel :: "byte \<Rightarrow> nat option" where
  "samples_per_pixel colour_type =
     (if colour_type = 0 then Some 1
      else if colour_type = 2 then Some 3
      else if colour_type = 4 then Some 2
      else if colour_type = 6 then Some 4
      else None)"

text \<open>
  A minimal PNG image of one pixel: the signature; exactly the chunks \<open>IHDR\<close>,
  \<open>IDAT\<close>, \<open>IEND\<close>, each with a correct CRC; a header of width 1 and height 1 with
  eight bits per sample, no interlacing and the only compression and filter methods there
  are; and image data that decompress to one scanline, a filter type and the samples of
  the one pixel.
\<close>

definition one_pixel_png :: "byte list \<Rightarrow> bool" where
  "one_pixel_png bs =
     (take 8 bs = png_signature \<and>
      (case chunks (drop 8 bs) of
         Some [ihdr, idat, iend] \<Rightarrow>
           chunk_type ihdr = [73, 72, 68, 82] \<and> crc_ok ihdr \<and>
           chunk_type idat = [73, 68, 65, 84] \<and> crc_ok idat \<and>
           chunk_type iend = [73, 69, 78, 68] \<and> crc_ok iend \<and> chunk_data iend = [] \<and>
           (case chunk_data ihdr of
              [w1, w2, w3, w4, h1, h2, h3, h4, depth, colour_type, compression, filter_method,
               interlace] \<Rightarrow>
                be32 [w1, w2, w3, w4] = 1 \<and> be32 [h1, h2, h3, h4] = 1 \<and>
                depth = 8 \<and> compression = 0 \<and> filter_method = 0 \<and> interlace = 0 \<and>
                (case (samples_per_pixel colour_type, zlib_decompress (chunk_data idat)) of
                   (Some n, Some (filter_type # pixel)) \<Rightarrow> filter_type \<le> 4 \<and> length pixel = n
                 | _ \<Rightarrow> False)
            | _ \<Rightarrow> False)
       | _ \<Rightarrow> False))"

section \<open>Properties\<close>

subsection \<open>The embedded literal and the paths of the loop\<close>

lemma b64decode_data:
  "b64decode data = Inr [137, 80, 78, 71, 13, 10, 26, 10, 0, 0, 0, 13, 73, 72, 68, 82, 0, 0, 0, 1, 0, 0, 0, 1, 8, 6, 0, 0, 0, 31, 21, 196, 137, 0, 0, 0, 13, 73, 68, 65, 84, 120, 218, 99, 252, 207, 192, 80, 15, 0, 4, 133, 1, 128, 132, 169, 140, 33, 0, 0, 0, 0, 73, 69, 78, 68, 174, 66, 96, 130]"
  by code_simp

lemma decoded_is_png:
  "one_pixel_png [137, 80, 78, 71, 13, 10, 26, 10, 0, 0, 0, 13, 73, 72, 68, 82, 0, 0, 0, 1, 0, 0, 0, 1, 8, 6, 0, 0, 0, 31, 21, 196, 137, 0, 0, 0, 13, 73, 68, 65, 84, 120, 218, 99, 252, 207, 192, 80, 15, 0, 4, 133, 1, 128, 132, 169, 140, 33, 0, 0, 0, 0, 73, 69, 78, 68, 174, 66, 96, 130]"
  by code_simp

lemma decode_ok: "\<exists>b. b64decode data = Inr b"
  using b64decode_data by blast

lemma icon_paths:
  "map (path_join ''icons'') icon_names =
     [''icons/32x32.png'', ''icons/128x128.png'', ''icons/128x128@2x.png'', ''icons/icon.png'']"
  by (simp add: icon_names_def path_join_def sep_def)

lemma icon_dirs: "\<forall>n \<in> set icon_names. dirname (path_join ''icons'' n) = ''icons''"
  by (simp add: icon_names_def path_join_def dirname_def sep_def)

lemma icon_not_dir: "\<forall>n \<in> set icon_names. path_join ''icons'' n \<noteq> ''icons''"
  by (simp add: icon_names_def path_join_def sep_def)

subsection \<open>The write loop\<close>

lemma write_icon_Inr:
  "write_icon n b fs = Inr fs' \<Longrightarrow> fs' = fs(path_join ''icons'' n \<mapsto> File b)"
  by (auto simp: write_icon_def open_wb_def file_write_def Let_def
           split: option.splits node.splits)

lemma write_icons_frame:
  "p \<notin> path_join ''icons'' ` set ns \<Longrightarrow> snd (write_icons ns b fs) p = fs p"
proof (induction ns arbitrary: fs)
  case Nil
  then show ?case by simp
next
  case (Cons n ns)
  show ?case
  proof (cases "write_icon n b fs")
    case (Inl e)
    then show ?thesis by simp
  next
    case (Inr fs1)
    have "fs1 = fs(path_join ''icons'' n \<mapsto> File b)"
      using Inr by (rule write_icon_Inr)
    moreover have "snd (write_icons ns b fs1) p = fs1 p"
      using Cons.IH Cons.prems by simp
    ultimately show ?thesis
      using Inr Cons.prems by simp
  qed
qed

lemma write_icons_written:
  "write_icons ns b fs = (None, fs') \<Longrightarrow> n \<in> set ns \<Longrightarrow>
     fs' (path_join ''icons'' n) = Some (File b)"
proof (induction ns arbitrary: fs n)
  case Nil
  then show ?case by simp
next
  case (Cons m ns)
  from Cons.prems(1) obtain fs1 where
    w: "write_icon m b fs = Inr fs1" and rest: "write_icons ns b fs1 = (None, fs')"
    by (auto split: sum.splits)
  show ?case
  proof (cases "path_join ''icons'' n \<in> path_join ''icons'' ` set ns")
    case True
    then obtain k where "k \<in> set ns" "path_join ''icons'' n = path_join ''icons'' k"
      by auto
    then show ?thesis using Cons.IH [OF rest, of k] by simp
  next
    case False
    then have "n = m" using Cons.prems(2) by auto
    have "fs' (path_join ''icons'' n) = fs1 (path_join ''icons'' n)"
      using write_icons_frame [OF False, of b fs1] rest by simp
    then show ?thesis
      using write_icon_Inr [OF w] \<open>n = m\<close> by simp
  qed
qed

lemma write_icons_append:
  "write_icons (xs @ ys) b fs =
     (case write_icons xs b fs of
        (Some e, fs') \<Rightarrow> (Some e, fs')
      | (None, fs') \<Rightarrow> write_icons ys b fs')"
  by (induction xs arbitrary: fs) (auto split: sum.splits)

subsection \<open>Creating the directory, and the run as a whole\<close>

lemma makedirs_icons_cases:
  "makedirs ''icons'' fs =
     (case fs ''icons'' of
        None \<Rightarrow> Inr (fs(''icons'' \<mapsto> Dir))
      | Some Dir \<Rightarrow> Inr fs
      | Some (File c) \<Rightarrow> Inl (FileExistsError ''icons''))"
  by (simp add: makedirs_def mkdir_def parent_error_def dirname_def isdir_def sep_def
           split: option.splits node.splits)

lemma makedirs_icons_Inr:
  "makedirs ''icons'' fs = Inr fs1 \<Longrightarrow> fs1 ''icons'' = Some Dir \<and> (\<forall>p. p \<noteq> ''icons'' \<longrightarrow> fs1 p = fs p)"
  by (auto simp: makedirs_icons_cases split: option.splits node.splits)

lemma run_success_iff:
  assumes "b64decode d = Inr b"
  shows "raised (run_script d fs) = None \<longleftrightarrow>
           (\<exists>fs1 fs2. makedirs ''icons'' fs = Inr fs1 \<and> write_icons icon_names b fs1 = (None, fs2))"
  using assms by (auto simp: run_script_def split: sum.splits option.splits prod.splits)

lemma run_success_files:
  assumes "b64decode d = Inr b" "makedirs ''icons'' fs = Inr fs1"
    "write_icons icon_names b fs1 = (None, fs2)"
  shows "run_script d fs = \<lparr>raised = None, stdout = [''Minimalist icons generated''], files = fs2\<rparr>"
  using assms by (simp add: run_script_def)

subsection \<open>More on the write loop\<close>

lemma write_icon_overwrite:
  assumes "fs ''icons'' = Some Dir" "dirname (path_join ''icons'' n) = ''icons''"
    "fs (path_join ''icons'' n) = Some (File b)"
  shows "write_icon n b fs = Inr fs"
proof -
  have "fs(path_join ''icons'' n \<mapsto> File b) = fs"
    using assms(3) by (rule map_upd_triv)
  then show ?thesis
    using assms by (simp add: write_icon_def open_wb_def parent_error_def file_write_def)
qed

lemma write_icons_overwrite:
  assumes "fs ''icons'' = Some Dir"
    "\<forall>n \<in> set ns. dirname (path_join ''icons'' n) = ''icons''"
    "\<forall>n \<in> set ns. fs (path_join ''icons'' n) = Some (File b)"
  shows "write_icons ns b fs = (None, fs)"
  using assms by (induction ns) (simp_all add: write_icon_overwrite)

lemma write_icons_keeps_icons:
  "snd (write_icons icon_names b fs) ''icons'' = fs ''icons''"
  using icon_not_dir by (intro write_icons_frame) auto

lemma write_icon_error:
  "write_icon n b fs = Inl e \<Longrightarrow> e \<noteq> ValueError \<and> e \<noteq> BinasciiError"
  by (auto simp: write_icon_def open_wb_def parent_error_def Let_def
           split: option.splits node.splits if_splits)

lemma write_icons_error:
  "fst (write_icons ns b fs) \<noteq> Some ValueError \<and> fst (write_icons ns b fs) \<noteq> Some BinasciiError"
proof (induction ns arbitrary: fs)
  case Nil
  then show ?case by simp
next
  case (Cons n ns)
  show ?case
  proof (cases "write_icon n b fs")
    case (Inl e)
    then show ?thesis
      using write_icon_error [OF Inl] by auto
  next
    case (Inr fs1)
    then show ?thesis
      using Cons.IH [of fs1] by simp
  qed
qed

lemma icon_paths_distinct: "distinct (map (path_join ''icons'') icon_names)"
  unfolding icon_paths by simp

lemma later_path_not_earlier:
  assumes "k \<le> j" "j < length icon_names"
  shows "path_join ''icons'' (icon_names ! j) \<notin> path_join ''icons'' ` set (take k icon_names)"
proof
  assume "path_join ''icons'' (icon_names ! j) \<in> path_join ''icons'' ` set (take k icon_names)"
  then obtain i where i: "i < k"
      and eq: "path_join ''icons'' (icon_names ! j) = path_join ''icons'' (icon_names ! i)"
    by (auto simp: in_set_conv_nth)
  have len: "i < length (map (path_join ''icons'') icon_names)"
      "j < length (map (path_join ''icons'') icon_names)"
    using i assms by simp_all
  have "map (path_join ''icons'') icon_names ! i = map (path_join ''icons'') icon_names ! j"
    using eq len by simp
  then have "i = j"
    using icon_paths_distinct len by (simp only: nth_eq_iff_index_eq)
  then show False using i assms by simp
qed


subsection \<open>More on the run as a whole\<close>

lemma run_files:
  assumes "b64decode d = Inr b" "makedirs ''icons'' fs = Inr fs1"
  shows "files (run_script d fs) = snd (write_icons icon_names b fs1)"
  using assms by (simp add: run_script_def split: prod.splits option.splits)

lemma run_makedirs_failed:
  assumes "b64decode d = Inr b" "makedirs ''icons'' fs = Inl e"
  shows "run_script d fs = \<lparr>raised = Some e, stdout = [], files = fs\<rparr>"
  using assms by (simp add: run_script_def)

lemma run_write_failed:
  assumes "b64decode d = Inr b" "makedirs ''icons'' fs = Inr fs1"
    "write_icons icon_names b fs1 = (Some e, fs2)"
  shows "run_script d fs = \<lparr>raised = Some e, stdout = [], files = fs2\<rparr>"
  using assms by (simp add: run_script_def)

lemma run_after_makedirs:
  assumes "b64decode d = Inr b" "makedirs ''icons'' fs = Inr fs1"
  shows "raised (run_script d fs) = fst (write_icons icon_names b fs1)
       \<and> stdout (run_script d fs) =
           (if fst (write_icons icon_names b fs1) = None
            then [''Minimalist icons generated''] else [])
       \<and> files (run_script d fs) = snd (write_icons icon_names b fs1)"
proof (cases "write_icons icon_names b fs1")
  case (Pair r fs2)
  then show ?thesis
    using assms by (cases r) (simp_all add: run_script_def)
qed

subsection \<open>The run on a filesystem with links\<close>






















section \<open>The claims\<close>

text \<open>
  Claim C1. After a successful run each of the four files \<open>icons/32x32.png\<close>,
  \<open>icons/128x128.png\<close>, \<open>icons/128x128@2x.png\<close> and \<open>icons/icon.png\<close> holds exactly
  the bytes that decoding the embedded literal gives, whatever the filesystem held before.
\<close>

theorem successful_run_writes_decoded_bytes:
  assumes "raised (fix_icons argv environ fs) = None"
  shows "\<exists>b. b64decode data = Inr b
           \<and> files (fix_icons argv environ fs) ''icons/32x32.png'' = Some (File b)
           \<and> files (fix_icons argv environ fs) ''icons/128x128.png'' = Some (File b)
           \<and> files (fix_icons argv environ fs) ''icons/128x128@2x.png'' = Some (File b)
           \<and> files (fix_icons argv environ fs) ''icons/icon.png'' = Some (File b)"
proof -
  obtain b where b: "b64decode data = Inr b"
    using decode_ok by blast
  from assms obtain fs1 fs2 where
    mk: "makedirs ''icons'' fs = Inr fs1" and wr: "write_icons icon_names b fs1 = (None, fs2)"
    using run_success_iff [OF b] by (auto simp: fix_icons_def)
  have r: "files (fix_icons argv environ fs) = fs2"
    using run_success_files [OF b mk wr] by (simp add: fix_icons_def)
  have "\<forall>p \<in> set (map (path_join ''icons'') icon_names). fs2 p = Some (File b)"
    using write_icons_written [OF wr] by auto
  then show ?thesis
    using b r unfolding icon_paths by simp
qed

theorem successful_run_writes_decoded_bytes_witness:
  "raised (fix_icons [] Map.empty [''icons'' \<mapsto> Dir, ''icons/icon.png'' \<mapsto> File [0]]) = None
   \<and> (\<exists>b. b64decode data = Inr b
         \<and> files (fix_icons [] Map.empty [''icons'' \<mapsto> Dir, ''icons/icon.png'' \<mapsto> File [0]])
             ''icons/icon.png'' = Some (File b))"
proof -
  have h: "raised (fix_icons [] Map.empty [''icons'' \<mapsto> Dir, ''icons/icon.png'' \<mapsto> File [0]]) = None"
    by code_simp
  show ?thesis
    using h successful_run_writes_decoded_bytes [OF h] by blast
qed

text \<open>
  Claim C2. Started in an empty working directory the run succeeds: the filesystem it
  leaves holds the directory \<open>icons\<close> and the four files and nothing else, each file
  with exactly the decoded bytes (so of their length), and the one confirmation line is on
  standard output.
\<close>

theorem run_in_empty_directory:
  "\<exists>b. b64decode data = Inr b
     \<and> fix_icons argv environ Map.empty =
         \<lparr>raised = None, stdout = [''Minimalist icons generated''],
          files = [''icons'' \<mapsto> Dir,
                   ''icons/32x32.png'' \<mapsto> File b,
                   ''icons/128x128.png'' \<mapsto> File b,
                   ''icons/128x128@2x.png'' \<mapsto> File b,
                   ''icons/icon.png'' \<mapsto> File b]\<rparr>
     \<and> exit_status (fix_icons argv environ Map.empty) = 0
     \<and> dom (files (fix_icons argv environ Map.empty)) =
         {''icons'', ''icons/32x32.png'', ''icons/128x128.png'', ''icons/128x128@2x.png'',
          ''icons/icon.png''}"
proof -
  obtain b where b: "b64decode data = Inr b"
    using decode_ok by blast
  have mk: "makedirs ''icons'' Map.empty = Inr [''icons'' \<mapsto> Dir]"
    by (simp add: makedirs_icons_cases)
  have wr: "write_icons icon_names b [''icons'' \<mapsto> Dir] =
      (None, [''icons'' \<mapsto> Dir,
              ''icons/32x32.png'' \<mapsto> File b,
              ''icons/128x128.png'' \<mapsto> File b,
              ''icons/128x128@2x.png'' \<mapsto> File b,
              ''icons/icon.png'' \<mapsto> File b])"
    by (simp add: icon_names_def write_icon_def path_join_def sep_def open_wb_def
          parent_error_def dirname_def file_write_def)
  have r: "fix_icons argv environ Map.empty =
         \<lparr>raised = None, stdout = [''Minimalist icons generated''],
          files = [''icons'' \<mapsto> Dir,
                   ''icons/32x32.png'' \<mapsto> File b,
                   ''icons/128x128.png'' \<mapsto> File b,
                   ''icons/128x128@2x.png'' \<mapsto> File b,
                   ''icons/icon.png'' \<mapsto> File b]\<rparr>"
    using run_success_files [OF b mk wr] by (simp add: fix_icons_def)
  have d: "dom (files (fix_icons argv environ Map.empty)) =
         {''icons'', ''icons/32x32.png'', ''icons/128x128.png'', ''icons/128x128@2x.png'',
          ''icons/icon.png''}"
    unfolding r by auto
  show ?thesis
    using b r d by (auto simp: exit_status_def)
qed

text \<open>
  Claim C3. A run started on the filesystem a successful run left behind succeeds as
  well, whatever its arguments and environment, and leaves that filesystem as it is: the
  whole outcome of the second run equals that of the first. The files are overwritten,
  not appended to.
\<close>

theorem second_run_idempotent:
  assumes "raised (fix_icons argv environ fs) = None"
  shows "fix_icons argv' environ' (files (fix_icons argv environ fs)) = fix_icons argv environ fs
         \<and> exit_status (fix_icons argv' environ' (files (fix_icons argv environ fs))) = 0
         \<and> files (fix_icons argv' environ' (files (fix_icons argv environ fs)))
             = files (fix_icons argv environ fs)"
proof -
  obtain b where b: "b64decode data = Inr b"
    using decode_ok by blast
  from assms obtain fs1 fs2 where
    mk: "makedirs ''icons'' fs = Inr fs1" and wr: "write_icons icon_names b fs1 = (None, fs2)"
    using run_success_iff [OF b] by (auto simp: fix_icons_def)
  have first: "fix_icons argv environ fs =
      \<lparr>raised = None, stdout = [''Minimalist icons generated''], files = fs2\<rparr>"
    using run_success_files [OF b mk wr] by (simp add: fix_icons_def)
  have dir: "fs2 ''icons'' = Some Dir"
    using write_icons_keeps_icons [of b fs1] wr makedirs_icons_Inr [OF mk] by simp
  have written: "\<forall>n \<in> set icon_names. fs2 (path_join ''icons'' n) = Some (File b)"
    using write_icons_written [OF wr] by blast
  have mk2: "makedirs ''icons'' fs2 = Inr fs2"
    using dir by (simp add: makedirs_icons_cases)
  have wr2: "write_icons icon_names b fs2 = (None, fs2)"
    using dir icon_dirs written by (rule write_icons_overwrite)
  have second: "fix_icons argv' environ' fs2 =
      \<lparr>raised = None, stdout = [''Minimalist icons generated''], files = fs2\<rparr>"
    using run_success_files [OF b mk2 wr2] by (simp add: fix_icons_def)
  show ?thesis
    using first second by (simp add: exit_status_def)
qed

theorem second_run_idempotent_witness:
  "raised (fix_icons [] Map.empty Map.empty) = None
   \<and> fix_icons [''-v''] [''HOME'' \<mapsto> ''/root''] (files (fix_icons [] Map.empty Map.empty))
       = fix_icons [] Map.empty Map.empty"
proof -
  have h: "raised (fix_icons [] Map.empty Map.empty) = None"
    by code_simp
  show ?thesis
    using h second_run_idempotent [OF h, of "[''-v'']" "[''HOME'' \<mapsto> ''/root'']"] by blast
qed

text \<open>
  Claim C4. When nothing is at \<open>icons\<close>, the directory-creation step creates the
  directory and the run leaves it there. When \<open>icons\<close> is a directory already, that step
  returns without an error and without a change, and the run goes on with the write loop:
  its outcome is the outcome of the loop on the unchanged filesystem.
\<close>

theorem icons_directory_ensured:
  "(fs ''icons'' = None \<longrightarrow>
      makedirs ''icons'' fs = Inr (fs(''icons'' \<mapsto> Dir))
      \<and> files (fix_icons argv environ fs) ''icons'' = Some Dir)
   \<and> (fs ''icons'' = Some Dir \<longrightarrow>
        makedirs ''icons'' fs = Inr fs
        \<and> (\<exists>b. b64decode data = Inr b
              \<and> fix_icons argv environ fs =
                  (case write_icons icon_names b fs of
                     (Some e, fs2) \<Rightarrow> \<lparr>raised = Some e, stdout = [], files = fs2\<rparr>
                   | (None, fs2) \<Rightarrow>
                       \<lparr>raised = None, stdout = [''Minimalist icons generated''],
                        files = fs2\<rparr>)))"
proof -
  obtain b where b: "b64decode data = Inr b"
    using decode_ok by blast
  have absent: "makedirs ''icons'' fs = Inr (fs(''icons'' \<mapsto> Dir))
      \<and> files (fix_icons argv environ fs) ''icons'' = Some Dir" if "fs ''icons'' = None"
  proof -
    have mk: "makedirs ''icons'' fs = Inr (fs(''icons'' \<mapsto> Dir))"
      using that by (simp add: makedirs_icons_cases)
    have "files (fix_icons argv environ fs) ''icons'' = (fs(''icons'' \<mapsto> Dir)) ''icons''"
      using run_files [OF b mk] write_icons_keeps_icons [of b "fs(''icons'' \<mapsto> Dir)"]
      by (simp add: fix_icons_def)
    then show ?thesis using mk by simp
  qed
  have present: "makedirs ''icons'' fs = Inr fs
      \<and> (\<exists>b. b64decode data = Inr b
            \<and> fix_icons argv environ fs =
                (case write_icons icon_names b fs of
                   (Some e, fs2) \<Rightarrow> \<lparr>raised = Some e, stdout = [], files = fs2\<rparr>
                 | (None, fs2) \<Rightarrow>
                     \<lparr>raised = None, stdout = [''Minimalist icons generated''],
                      files = fs2\<rparr>))" if "fs ''icons'' = Some Dir"
  proof -
    have mk: "makedirs ''icons'' fs = Inr fs"
      using that by (simp add: makedirs_icons_cases)
    then show ?thesis
      using b by (auto simp: fix_icons_def run_script_def)
  qed
  show ?thesis
    using absent present by blast
qed

theorem icons_directory_ensured_witness:
  "(Map.empty :: filesystem) ''icons'' = None
   \<and> makedirs ''icons'' Map.empty = Inr [''icons'' \<mapsto> Dir]
   \<and> files (fix_icons [] Map.empty Map.empty) ''icons'' = Some Dir
   \<and> ([''icons'' \<mapsto> Dir] :: filesystem) ''icons'' = Some Dir
   \<and> makedirs ''icons'' [''icons'' \<mapsto> Dir] = Inr [''icons'' \<mapsto> Dir]"
proof -
  have h1: "(Map.empty :: filesystem) ''icons'' = None"
    by simp
  have h2: "([''icons'' \<mapsto> Dir] :: filesystem) ''icons'' = Some Dir"
    by simp
  show ?thesis
    using h1 h2 icons_directory_ensured [of Map.empty "[]" Map.empty]
      icons_directory_ensured [of "[''icons'' \<mapsto> Dir]" "[]" Map.empty]
    by blast
qed

text \<open>
  Claim C5. When a regular file named \<open>icons\<close> is in the working directory, the run
  ends with the \<open>FileExistsError\<close> of the directory-creation step, with exit status 1
  and nothing printed; the filesystem is the one it started from, so none of the four
  files has been written and the file \<open>icons\<close> keeps its content.
\<close>

theorem plain_file_icons_blocks_run:
  assumes "fs ''icons'' = Some (File c)"
  shows "fix_icons argv environ fs =
           \<lparr>raised = Some (FileExistsError ''icons''), stdout = [], files = fs\<rparr>
         \<and> exit_status (fix_icons argv environ fs) = 1
         \<and> files (fix_icons argv environ fs) ''icons'' = Some (File c)"
proof -
  obtain b where "b64decode data = Inr b"
    using decode_ok by blast
  then show ?thesis
    using assms by (simp add: fix_icons_def run_script_def makedirs_icons_cases exit_status_def)
qed

theorem plain_file_icons_blocks_run_witness:
  "[''icons'' \<mapsto> File [1, 2, 3]] ''icons'' = Some (File [1, 2, 3])
   \<and> fix_icons [] Map.empty [''icons'' \<mapsto> File [1, 2, 3]] =
       \<lparr>raised = Some (FileExistsError ''icons''), stdout = [],
        files = [''icons'' \<mapsto> File [1, 2, 3]]\<rparr>
   \<and> exit_status (fix_icons [] Map.empty [''icons'' \<mapsto> File [1, 2, 3]]) = 1"
proof -
  have h: "[''icons'' \<mapsto> File [1, 2, 3]] ''icons'' = Some (File [1, 2, 3])"
    by simp
  show ?thesis
    using h plain_file_icons_blocks_run
      [of "[''icons'' \<mapsto> File [1, 2, 3]]" "[1, 2, 3]" "[]" Map.empty]
    by blast
qed

text \<open>
  Claim C6. The program is the script run on the literal \<open>data\<close>. For the script with
  any literal in its place: either decoding, directory creation and all four writes
  succeed, and then standard output is exactly the one confirmation line and the exit
  status is 0; or one of them fails, and then nothing is printed and the exit status is 1.
\<close>

theorem confirmation_iff_every_step_succeeds:
  "fix_icons argv environ fs = run_script data fs
   \<and> ((stdout (run_script d fs) = [''Minimalist icons generated'']
         \<and> exit_status (run_script d fs) = 0
         \<and> raised (run_script d fs) = None
         \<and> (\<exists>b fs1 fs2. b64decode d = Inr b \<and> makedirs ''icons'' fs = Inr fs1
                \<and> write_icons icon_names b fs1 = (None, fs2)))
      \<or> (stdout (run_script d fs) = []
         \<and> exit_status (run_script d fs) = 1
         \<and> raised (run_script d fs) \<noteq> None
         \<and> \<not> (\<exists>b fs1 fs2. b64decode d = Inr b \<and> makedirs ''icons'' fs = Inr fs1
                \<and> write_icons icon_names b fs1 = (None, fs2))))"
proof
  show "fix_icons argv environ fs = run_script data fs"
    by (simp add: fix_icons_def)
  show "(stdout (run_script d fs) = [''Minimalist icons generated'']
         \<and> exit_status (run_script d fs) = 0
         \<and> raised (run_script d fs) = None
         \<and> (\<exists>b fs1 fs2. b64decode d = Inr b \<and> makedirs ''icons'' fs = Inr fs1
                \<and> write_icons icon_names b fs1 = (None, fs2)))
      \<or> (stdout (run_script d fs) = []
         \<and> exit_status (run_script d fs) = 1
         \<and> raised (run_script d fs) \<noteq> None
         \<and> \<not> (\<exists>b fs1 fs2. b64decode d = Inr b \<and> makedirs ''icons'' fs = Inr fs1
                \<and> write_icons icon_names b fs1 = (None, fs2)))"
    by (auto simp: run_script_def exit_status_def split: sum.splits option.splits prod.splits)
qed

theorem confirmation_iff_every_step_succeeds_witness:
  "stdout (fix_icons [] Map.empty Map.empty) = [''Minimalist icons generated'']
   \<and> exit_status (fix_icons [] Map.empty Map.empty) = 0
   \<and> stdout (run_script ''Q'' Map.empty) = []
   \<and> exit_status (run_script ''Q'' Map.empty) = 1
   \<and> stdout (fix_icons [] Map.empty [''icons'' \<mapsto> File []]) = []
   \<and> exit_status (fix_icons [] Map.empty [''icons'' \<mapsto> File []]) = 1"
proof -
  have ok: "raised (run_script data Map.empty) = None"
    by code_simp
  have bad_literal: "raised (run_script ''Q'' Map.empty) \<noteq> None"
    by code_simp
  have bad_directory: "raised (run_script data [''icons'' \<mapsto> File []]) \<noteq> None"
    by code_simp
  note program = confirmation_iff_every_step_succeeds [THEN conjunct1]
  note cases = confirmation_iff_every_step_succeeds [THEN conjunct2]
  have "stdout (run_script data Map.empty) = [''Minimalist icons generated'']
      \<and> exit_status (run_script data Map.empty) = 0"
    using ok cases [of data Map.empty] by fastforce
  moreover have "stdout (run_script ''Q'' Map.empty) = []
      \<and> exit_status (run_script ''Q'' Map.empty) = 1"
    using bad_literal cases [of "''Q''" Map.empty] by fastforce
  moreover have "stdout (run_script data [''icons'' \<mapsto> File []]) = []
      \<and> exit_status (run_script data [''icons'' \<mapsto> File []]) = 1"
    using bad_directory cases [of data "[''icons'' \<mapsto> File []]"] by fastforce
  ultimately show ?thesis
    unfolding program [of "[]" Map.empty] by blast
qed

text \<open>
  Claim C7. When the first \<open>k\<close> writes succeed and the write of the next file fails with
  \<open>e\<close>, the run ends there with \<open>e\<close> uncaught and nothing printed. The filesystem it
  leaves is the one the first \<open>k\<close> writes produced: those \<open>k\<close> files hold the full
  decoded bytes, and the paths of the failing and the later files are as they were at the
  start, so nothing is retried, recovered or rolled back.
\<close>

theorem failed_write_stops_the_run:
  assumes "b64decode data = Inr b"
    and "makedirs ''icons'' fs = Inr fs1"
    and "k < length icon_names"
    and "write_icons (take k icon_names) b fs1 = (None, fsk)"
    and "write_icon (icon_names ! k) b fsk = Inl e"
  shows "fix_icons argv environ fs = \<lparr>raised = Some e, stdout = [], files = fsk\<rparr>
         \<and> exit_status (fix_icons argv environ fs) = 1
         \<and> (\<forall>i < k. fsk (path_join ''icons'' (icon_names ! i)) = Some (File b))
         \<and> (\<forall>j. k \<le> j \<and> j < length icon_names \<longrightarrow>
               fsk (path_join ''icons'' (icon_names ! j)) = fs (path_join ''icons'' (icon_names ! j)))"
proof -
  have split: "icon_names = take k icon_names @ icon_names ! k # drop (Suc k) icon_names"
    using assms(3) by (rule id_take_nth_drop)
  have "write_icons (take k icon_names @ icon_names ! k # drop (Suc k) icon_names) b fs1
      = (Some e, fsk)"
    using assms(4,5) by (simp add: write_icons_append)
  then have wr: "write_icons icon_names b fs1 = (Some e, fsk)"
    using split by simp
  have r: "fix_icons argv environ fs = \<lparr>raised = Some e, stdout = [], files = fsk\<rparr>"
    using run_write_failed [OF assms(1,2) wr] by (simp add: fix_icons_def)
  have earlier: "fsk (path_join ''icons'' (icon_names ! i)) = Some (File b)" if "i < k" for i
  proof -
    have "icon_names ! i \<in> set (take k icon_names)"
      using that assms(3) by (auto simp: in_set_conv_nth intro!: exI [of _ i])
    then show ?thesis
      using write_icons_written [OF assms(4)] by blast
  qed
  have later: "fsk (path_join ''icons'' (icon_names ! j)) = fs (path_join ''icons'' (icon_names ! j))"
    if "k \<le> j" "j < length icon_names" for j
  proof -
    have "snd (write_icons (take k icon_names) b fs1) (path_join ''icons'' (icon_names ! j))
        = fs1 (path_join ''icons'' (icon_names ! j))"
      using later_path_not_earlier [OF that] by (rule write_icons_frame)
    moreover have "path_join ''icons'' (icon_names ! j) \<noteq> ''icons''"
      using icon_not_dir that(2) by simp
    ultimately show ?thesis
      using assms(4) makedirs_icons_Inr [OF assms(2)] by simp
  qed
  show ?thesis
    using r earlier later by (simp add: exit_status_def)
qed

theorem failed_write_stops_the_run_witness:
  "\<exists>b. b64decode data = Inr b
     \<and> fix_icons [] Map.empty [''icons'' \<mapsto> Dir, ''icons/128x128.png'' \<mapsto> Dir] =
         \<lparr>raised = Some (IsADirectoryError ''icons/128x128.png''), stdout = [],
          files = [''icons'' \<mapsto> Dir, ''icons/128x128.png'' \<mapsto> Dir,
                   ''icons/32x32.png'' \<mapsto> File b]\<rparr>"
proof -
  obtain b where b: "b64decode data = Inr b"
    using decode_ok by blast
  let ?fs = "[''icons'' \<mapsto> Dir, ''icons/128x128.png'' \<mapsto> Dir] :: filesystem"
  let ?fsk = "[''icons'' \<mapsto> Dir, ''icons/128x128.png'' \<mapsto> Dir,
               ''icons/32x32.png'' \<mapsto> File b] :: filesystem"
  have mk: "makedirs ''icons'' ?fs = Inr ?fs"
    by (simp add: makedirs_icons_cases)
  have k: "(1::nat) < length icon_names"
    by (simp add: icon_names_def)
  have first: "write_icons (take 1 icon_names) b ?fs = (None, ?fsk)"
    by (simp add: icon_names_def write_icon_def path_join_def sep_def open_wb_def
          parent_error_def dirname_def file_write_def)
  have second: "write_icon (icon_names ! 1) b ?fsk = Inl (IsADirectoryError ''icons/128x128.png'')"
    by (simp add: icon_names_def write_icon_def path_join_def sep_def open_wb_def
          parent_error_def dirname_def file_write_def)
  show ?thesis
    using b failed_write_stops_the_run [OF b mk k first second, of "[]" Map.empty] by blast
qed

text \<open>
  Claim C9. Decoding the embedded literal succeeds, so the run never ends with an
  exception of the decoding step; the decoded bytes are 70 in number, hence not empty, and
  are a minimal PNG image of one pixel.
\<close>

theorem literal_decodes_to_one_pixel_png:
  "\<exists>b. b64decode data = Inr b \<and> b \<noteq> [] \<and> length b = 70 \<and> one_pixel_png b
       \<and> raised (fix_icons argv environ fs) \<noteq> Some ValueError
       \<and> raised (fix_icons argv environ fs) \<noteq> Some BinasciiError"
proof -
  let ?b = "[137, 80, 78, 71, 13, 10, 26, 10, 0, 0, 0, 13, 73, 72, 68, 82, 0, 0, 0, 1, 0, 0, 0, 1, 8, 6, 0, 0, 0, 31, 21, 196, 137, 0, 0, 0, 13, 73, 68, 65, 84, 120, 218, 99, 252, 207, 192, 80, 15, 0, 4, 133, 1, 128, 132, 169, 140, 33, 0, 0, 0, 0, 73, 69, 78, 68, 174, 66, 96, 130] :: byte list"
  have b: "b64decode data = Inr ?b"
    by (rule b64decode_data)
  have len: "length ?b = 70"
    by simp
  have no_decode_error: "raised (run_script data fs) \<noteq> Some ValueError
      \<and> raised (run_script data fs) \<noteq> Some BinasciiError"
  proof (cases "makedirs ''icons'' fs")
    case (Inl e)
    then have "e = FileExistsError ''icons''"
      by (auto simp: makedirs_icons_cases split: option.splits node.splits)
    then show ?thesis
      using run_makedirs_failed [OF b Inl] by simp
  next
    case (Inr fs1)
    have "fst (write_icons icon_names ?b fs1) \<noteq> Some ValueError
        \<and> fst (write_icons icon_names ?b fs1) \<noteq> Some BinasciiError"
      by (rule write_icons_error)
    then show ?thesis
      using run_after_makedirs [OF b Inr] by simp
  qed
  show ?thesis
    using b len decoded_is_png no_decode_error unfolding fix_icons_def
    by (intro exI [of _ ?b]) simp
qed




end
